theory Spec2Isabelle
  imports Main "HOL-Library.Word" "HOL-Library.Log_Nat"
begin

section \<open>Single-precision arithmetic\<close>

text \<open>
  \<^verbatim>\<open>Bloom::updateLowResTexture\<close> computes the aspect ratio of its input in C++
  \<^verbatim>\<open>float\<close>. A \<^verbatim>\<open>float\<close> is taken to be IEEE-754 binary32 with the default rounding
  (to nearest, ties to even) and no excess precision. A value is a rational number, an
  infinity or a NaN; the sign of zero is not kept, which no operation of this file can
  observe (its operands come from unsigned integers).
\<close>

datatype f32 = Finite rat | PInf | NInf | NaN

text \<open>\<open>ilog2 x\<close> is the binary exponent of a positive rational: \<open>2 ^ ilog2 x \<le> x < 2 ^ (ilog2 x + 1)\<close>.\<close>

definition ilog2 :: "rat \<Rightarrow> int" where
  "ilog2 x = (let (p, q) = quotient_of x; d = bitlen p - bitlen q
              in if 2 powi d \<le> x then d else d - 1)"

definition round_half_even :: "rat \<Rightarrow> int" where
  "round_half_even x = (let n = \<lfloor>x\<rfloor>; r = x - of_int n
     in if r < 1 / 2 then n else if 1 / 2 < r then n + 1 else if even n then n else n + 1)"

text \<open>
  Rounding of an exact result to binary32: 24 significant bits, the exponent of the
  last place no smaller than \<open>-149\<close> (subnormals), overflow to an infinity from \<open>2 ^ 128\<close>.
\<close>

definition f32_round :: "rat \<Rightarrow> f32" where
  "f32_round x = (if x = 0 then Finite 0 else
     let e = max (ilog2 \<bar>x\<bar>) (- 126); u = 2 powi (e - 23);
         y = of_int (round_half_even (x / u)) * u
     in if 2 powi 128 \<le> \<bar>y\<bar> then (if 0 < x then PInf else NInf) else Finite y)"

text \<open>\<^verbatim>\<open>(float)n\<close> for a \<^verbatim>\<open>uint32_t\<close>.\<close>

definition f32_of_u32 :: "32 word \<Rightarrow> f32" where
  "f32_of_u32 n = f32_round (of_int (uint n))"

fun f32_div :: "f32 \<Rightarrow> f32 \<Rightarrow> f32" where
  "f32_div (Finite a) (Finite b) =
     (if b = 0 then (if a = 0 then NaN else if 0 < a then PInf else NInf)
      else f32_round (a / b))"
| "f32_div (Finite a) PInf = Finite 0"
| "f32_div (Finite a) NInf = Finite 0"
| "f32_div PInf (Finite b) = (if 0 \<le> b then PInf else NInf)"
| "f32_div NInf (Finite b) = (if 0 \<le> b then NInf else PInf)"
| "f32_div _ _ = NaN"

fun f32_mul :: "f32 \<Rightarrow> f32 \<Rightarrow> f32" where
  "f32_mul (Finite a) (Finite b) = f32_round (a * b)"
| "f32_mul (Finite a) PInf = (if a = 0 then NaN else if 0 < a then PInf else NInf)"
| "f32_mul (Finite a) NInf = (if a = 0 then NaN else if 0 < a then NInf else PInf)"
| "f32_mul PInf (Finite b) = (if b = 0 then NaN else if 0 < b then PInf else NInf)"
| "f32_mul NInf (Finite b) = (if b = 0 then NaN else if 0 < b then NInf else PInf)"
| "f32_mul PInf PInf = PInf"
| "f32_mul PInf NInf = NInf"
| "f32_mul NInf PInf = NInf"
| "f32_mul NInf NInf = PInf"
| "f32_mul _ _ = NaN"

text \<open>
  \<^verbatim>\<open>(uint32_t)x\<close> for a \<^verbatim>\<open>float\<close>: the fractional part is discarded; the conversion is
  undefined in C++ when the truncated value does not fit the destination type, which
  includes the infinities and NaN. Undefined behaviour is \<open>None\<close>.
\<close>

fun u32_of_f32 :: "f32 \<Rightarrow> 32 word option" where
  "u32_of_f32 (Finite r) =
     (if - 1 < r \<and> r < 2 ^ 32 then Some (word_of_int (if 0 \<le> r then \<lfloor>r\<rfloor> else \<lceil>r\<rceil>))
      else None)"
| "u32_of_f32 _ = None"

section \<open>Engine resources\<close>

text \<open>
  Modelled from the spec: the texture resource of the engine (\<^verbatim>\<open>Texture\<close>,
  \<^verbatim>\<open>ResourceFormat\<close>, \<^verbatim>\<open>Resource::BindFlags\<close>) is declared outside this file. A texture
  is the object identity it was created with and the properties \<^verbatim>\<open>Bloom\<close> reads or passes
  to \<^verbatim>\<open>Texture::create2D\<close>; its contents are not modelled. A \<^verbatim>\<open>SharedPtr\<close> that may be
  null is an \<open>option\<close>.
\<close>

datatype ResourceFormat = ResourceFormat nat

datatype BindFlags = ShaderResource | RenderTarget

record Texture =
  texId :: nat
  width :: "32 word"
  height :: "32 word"
  format :: ResourceFormat
  arraySize :: "32 word"
  mipLevels :: "32 word"
  bindFlags :: "BindFlags set"

text \<open>
  Modelled from the spec: the device that allocates resources is outside this file;
  it is the count of the textures created so far, which numbers the next one.
\<close>

record Device =
  texturesCreated :: nat

text \<open>
  Modelled from the spec: \<^verbatim>\<open>Texture::create2D\<close> is outside this file; it allocates a
  new texture object with the properties it is given (no initial data here).
\<close>

definition Texture_create2D ::
  "32 word \<Rightarrow> 32 word \<Rightarrow> ResourceFormat \<Rightarrow> 32 word \<Rightarrow> 32 word \<Rightarrow> BindFlags set \<Rightarrow> Device
     \<Rightarrow> Texture \<times> Device" where
  "Texture_create2D w h fmt arr mips flags dev =
     (\<lparr>texId = texturesCreated dev, width = w, height = h, format = fmt,
       arraySize = arr, mipLevels = mips, bindFlags = flags\<rparr>,
      dev\<lparr>texturesCreated := Suc (texturesCreated dev)\<rparr>)"

datatype ShaderResourceView = SRV Texture

datatype RenderTargetView = RTV Texture

text \<open>
  Modelled from the spec: the frame buffer object (\<^verbatim>\<open>Fbo\<close>) is outside this file; it is
  the set of render-target textures bound to its color slots.
\<close>

record Fbo =
  colorTargets :: "nat \<rightharpoonup> Texture"

definition Fbo_create :: Fbo where
  "Fbo_create = \<lparr>colorTargets = Map.empty\<rparr>"

definition getColorTexture :: "Fbo \<Rightarrow> nat \<Rightarrow> Texture option" where
  "getColorTexture fbo i = colorTargets fbo i"

definition attachColorTarget :: "Texture \<Rightarrow> nat \<Rightarrow> Fbo \<Rightarrow> Fbo" where
  "attachColorTarget tex i fbo = fbo\<lparr>colorTargets := (colorTargets fbo)(i \<mapsto> tex)\<rparr>"

text \<open>
  Modelled from the spec: the blend state (\<^verbatim>\<open>BlendState\<close>, its \<^verbatim>\<open>Desc\<close> and the enums
  \<^verbatim>\<open>BlendOp\<close> and \<^verbatim>\<open>BlendFunc\<close>) is outside this file. A description holds, for each
  render target, whether blending is on, the blend operation and the source and
  destination factors, each for the RGB channels and for alpha.
  \<^verbatim>\<open>setRtParams(rtIndex, rgbOp, alphaOp, srcRgbFunc, dstRgbFunc, srcAlphaFunc,
  dstAlphaFunc)\<close> takes them in this order.
\<close>

datatype BlendOp = BlendOp_Add | BlendOp_Subtract | BlendOp_ReverseSubtract
  | BlendOp_Min | BlendOp_Max

datatype BlendFunc = BlendFunc_Zero | BlendFunc_One
  | BlendFunc_SrcColor | BlendFunc_OneMinusSrcColor
  | BlendFunc_DstColor | BlendFunc_OneMinusDstColor
  | BlendFunc_SrcAlpha | BlendFunc_OneMinusSrcAlpha
  | BlendFunc_DstAlpha | BlendFunc_OneMinusDstAlpha
  | BlendFunc_BlendFactor | BlendFunc_OneMinusBlendFactor
  | BlendFunc_SrcAlphaSaturate

record RenderTargetDesc =
  blendEnabled :: bool
  rgbBlendOp :: BlendOp
  alphaBlendOp :: BlendOp
  srcRgbFunc :: BlendFunc
  dstRgbFunc :: BlendFunc
  srcAlphaFunc :: BlendFunc
  dstAlphaFunc :: BlendFunc

record BlendState_Desc =
  mRtDesc :: "nat \<Rightarrow> RenderTargetDesc"

definition BlendState_Desc_default :: BlendState_Desc where
  "BlendState_Desc_default = \<lparr>mRtDesc = (\<lambda>_.
     \<lparr>blendEnabled = False, rgbBlendOp = BlendOp_Add, alphaBlendOp = BlendOp_Add,
      srcRgbFunc = BlendFunc_One, dstRgbFunc = BlendFunc_Zero,
      srcAlphaFunc = BlendFunc_One, dstAlphaFunc = BlendFunc_Zero\<rparr>)\<rparr>"

definition setRtBlend :: "nat \<Rightarrow> bool \<Rightarrow> BlendState_Desc \<Rightarrow> BlendState_Desc" where
  "setRtBlend rtIndex enable desc =
     desc\<lparr>mRtDesc := (mRtDesc desc)(rtIndex := (mRtDesc desc rtIndex)\<lparr>blendEnabled := enable\<rparr>)\<rparr>"

definition setRtParams ::
  "nat \<Rightarrow> BlendOp \<Rightarrow> BlendOp \<Rightarrow> BlendFunc \<Rightarrow> BlendFunc \<Rightarrow> BlendFunc \<Rightarrow> BlendFunc
     \<Rightarrow> BlendState_Desc \<Rightarrow> BlendState_Desc" where
  "setRtParams rtIndex rgbOp alphaOp srcRgb dstRgb srcAlpha dstAlpha desc =
     desc\<lparr>mRtDesc := (mRtDesc desc)(rtIndex := (mRtDesc desc rtIndex)
       \<lparr>rgbBlendOp := rgbOp, alphaBlendOp := alphaOp,
        srcRgbFunc := srcRgb, dstRgbFunc := dstRgb,
        srcAlphaFunc := srcAlpha, dstAlphaFunc := dstAlpha\<rparr>)\<rparr>"

datatype BlendState = BlendState_create (getDesc: BlendState_Desc)

datatype DepthStencilState = DepthStencilState

text \<open>
  Modelled from the spec: the sampler state (\<^verbatim>\<open>Sampler\<close> and its \<^verbatim>\<open>Desc\<close>) is outside
  this file; it is the three filter modes and the three addressing modes.
\<close>

datatype Sampler_Filter = Filter_Point | Filter_Linear

datatype Sampler_AddressMode = AddressMode_Wrap | AddressMode_Mirror | AddressMode_Clamp
  | AddressMode_Border | AddressMode_MirrorOnce

record Sampler_Desc =
  minFilter :: Sampler_Filter
  magFilter :: Sampler_Filter
  mipFilter :: Sampler_Filter
  addressModeU :: Sampler_AddressMode
  addressModeV :: Sampler_AddressMode
  addressModeW :: Sampler_AddressMode

definition Sampler_Desc_default :: Sampler_Desc where
  "Sampler_Desc_default =
     \<lparr>minFilter = Filter_Point, magFilter = Filter_Point, mipFilter = Filter_Point,
      addressModeU = AddressMode_Wrap, addressModeV = AddressMode_Wrap,
      addressModeW = AddressMode_Wrap\<rparr>"

definition setFilterMode ::
  "Sampler_Filter \<Rightarrow> Sampler_Filter \<Rightarrow> Sampler_Filter \<Rightarrow> Sampler_Desc \<Rightarrow> Sampler_Desc" where
  "setFilterMode mn mg mp desc = desc\<lparr>minFilter := mn, magFilter := mg, mipFilter := mp\<rparr>"

definition setAddressingMode ::
  "Sampler_AddressMode \<Rightarrow> Sampler_AddressMode \<Rightarrow> Sampler_AddressMode \<Rightarrow> Sampler_Desc
     \<Rightarrow> Sampler_Desc" where
  "setAddressingMode u v w desc = desc\<lparr>addressModeU := u, addressModeV := v, addressModeW := w\<rparr>"

datatype Sampler = Sampler_create Sampler_Desc

text \<open>
  Modelled from the spec: the full-screen pass, the shader reflection and the program
  variables (\<^verbatim>\<open>FullScreenPass\<close>, \<^verbatim>\<open>GraphicsVars\<close>) are outside this file. A pass is the
  two shader files it was created from; the binding location of a shader resource is
  the name it was looked up by; the variables are what has been stored in them:
  constant-buffer values by buffer and variable name, samplers by name, shader resource
  views by location and array index.
\<close>

record FullScreenPass =
  vsFile :: string
  psFile :: string

definition FullScreenPass_create :: "string \<Rightarrow> string \<Rightarrow> FullScreenPass" where
  "FullScreenPass_create vs ps = \<lparr>vsFile = vs, psFile = ps\<rparr>"

datatype BindLocation = BindLocation string

definition getResourceBinding :: "FullScreenPass \<Rightarrow> string \<Rightarrow> BindLocation" where
  "getResourceBinding pass name = BindLocation name"

type_synonym vec2 = "f32 \<times> f32"

record GraphicsVars =
  reflector :: FullScreenPass
  constants :: "string \<times> string \<rightharpoonup> vec2"
  samplers :: "string \<rightharpoonup> Sampler"
  srvs :: "BindLocation \<times> nat \<rightharpoonup> ShaderResourceView"

definition GraphicsVars_create :: "FullScreenPass \<Rightarrow> GraphicsVars" where
  "GraphicsVars_create pass =
     \<lparr>reflector = pass, constants = Map.empty, samplers = Map.empty, srvs = Map.empty\<rparr>"

definition setConstant :: "string \<Rightarrow> string \<Rightarrow> vec2 \<Rightarrow> GraphicsVars \<Rightarrow> GraphicsVars" where
  "setConstant cb var v vars = vars\<lparr>constants := (constants vars)((cb, var) \<mapsto> v)\<rparr>"

definition setSampler :: "string \<Rightarrow> Sampler \<Rightarrow> GraphicsVars \<Rightarrow> GraphicsVars" where
  "setSampler name s vars = vars\<lparr>samplers := (samplers vars)(name \<mapsto> s)\<rparr>"

definition setSrv :: "BindLocation \<Rightarrow> nat \<Rightarrow> ShaderResourceView \<Rightarrow> GraphicsVars \<Rightarrow> GraphicsVars" where
  "setSrv loc i srv vars = vars\<lparr>srvs := (srvs vars)((loc, i) \<mapsto> srv)\<rparr>"

text \<open>
  Modelled from the spec: the filter and the blur (\<^verbatim>\<open>PassFilter\<close>, \<^verbatim>\<open>GaussianBlur\<close>)
  are outside this file. The filter is a thresholding operation with a kind and a
  brightness cutoff; the blur is parameterized by kernel width and sigma. \<^verbatim>\<open>create\<close>
  stores the parameters, the getters read them and the setters store them.
\<close>

datatype PassFilter_Type = HighPass | LowPass

record PassFilter =
  mFilterType :: PassFilter_Type
  mThreshold :: f32

definition PassFilter_create :: "PassFilter_Type \<Rightarrow> f32 \<Rightarrow> PassFilter" where
  "PassFilter_create ty threshold = \<lparr>mFilterType = ty, mThreshold = threshold\<rparr>"

definition getThreshold :: "PassFilter \<Rightarrow> f32" where
  "getThreshold flt = mThreshold flt"


record GaussianBlur =
  mKernelWidth :: "32 word"
  mSigma :: f32

definition GaussianBlur_create :: "32 word \<Rightarrow> f32 \<Rightarrow> GaussianBlur" where
  "GaussianBlur_create kernelSize sigma = \<lparr>mKernelWidth = kernelSize, mSigma = sigma\<rparr>"

definition getKernelWidth :: "GaussianBlur \<Rightarrow> 32 word" where
  "getKernelWidth blur = mKernelWidth blur"


definition getSigma :: "GaussianBlur \<Rightarrow> f32" where
  "getSigma blur = mSigma blur"


section \<open>The Bloom effect\<close>

record Bloom =
  mpBlur :: GaussianBlur
  mpBlitPass :: FullScreenPass
  mSrcTexLoc :: BindLocation
  mpVars :: GraphicsVars
  mpAdditiveBlend :: BlendState
  mpSampler :: Sampler
  mpFilter :: PassFilter
  mpFilterResultFbo :: Fbo
  mpLowResTexture :: "Texture option"

text \<open>The constructor \<^verbatim>\<open>Bloom::Bloom\<close>, statement by statement.\<close>

definition Bloom_ctor :: "f32 \<Rightarrow> 32 word \<Rightarrow> f32 \<Rightarrow> Bloom" where
  "Bloom_ctor threshold kernelSize sigma =
     (let blur = GaussianBlur_create kernelSize sigma;
          blitPass = FullScreenPass_create ''Framework/Shaders/Blit.vs.slang''
                       ''Framework/Shaders/Blit.ps.slang'';
          srcTexLoc = getResourceBinding blitPass ''gTex'';
          vars0 = GraphicsVars_create blitPass;
          vars1 = setConstant ''SrcRectCB'' ''gOffset'' (Finite 0, Finite 0) vars0;
          vars2 = setConstant ''SrcRectCB'' ''gScale'' (Finite 1, Finite 1) vars1;
          desc0 = BlendState_Desc_default;
          desc1 = setRtBlend 0 True desc0;
          desc2 = setRtParams 0 BlendOp_Add BlendOp_Add BlendFunc_One BlendFunc_One
                    BlendFunc_SrcAlpha BlendFunc_OneMinusSrcAlpha desc1;
          additiveBlend = BlendState_create desc2;
          samplerDesc = setAddressingMode AddressMode_Clamp AddressMode_Clamp AddressMode_Clamp
                          (setFilterMode Filter_Linear Filter_Linear Filter_Linear
                             Sampler_Desc_default);
          sampler = Sampler_create samplerDesc;
          vars3 = setSampler ''gSampler'' sampler vars2;
          flt = PassFilter_create HighPass threshold;
          filterResultFbo = Fbo_create
      in \<lparr>mpBlur = blur, mpBlitPass = blitPass, mSrcTexLoc = srcTexLoc, mpVars = vars3,
          mpAdditiveBlend = additiveBlend, mpSampler = sampler, mpFilter = flt,
          mpFilterResultFbo = filterResultFbo, mpLowResTexture = None\<rparr>)"

definition Bloom_create :: "f32 \<Rightarrow> 32 word \<Rightarrow> f32 \<Rightarrow> Bloom" where
  "Bloom_create threshold kernelSize sigma = Bloom_ctor threshold kernelSize sigma"

text \<open>
  \<^verbatim>\<open>Bloom::updateLowResTexture\<close>. The result is \<open>None\<close> where the conversion of the
  scaled aspect ratio to \<^verbatim>\<open>uint32_t\<close> is undefined (height 0, or a value from \<open>2 ^ 32\<close>).
  The unsigned division and \<^verbatim>\<open>max\<close> are those of \<open>32 word\<close>.
\<close>

definition lowResHeight :: "Texture \<Rightarrow> 32 word" where
  "lowResHeight pTexture = max (height pTexture div 4) 256"

definition aspectRatio :: "Texture \<Rightarrow> f32" where
  "aspectRatio pTexture = f32_div (f32_of_u32 (width pTexture)) (f32_of_u32 (height pTexture))"

definition lowResWidth :: "Texture \<Rightarrow> 32 word option" where
  "lowResWidth pTexture =
     (case u32_of_f32 (f32_mul (Finite 256) (aspectRatio pTexture)) of
        None \<Rightarrow> None
      | Some a \<Rightarrow> Some (max (width pTexture div 4) a))"

definition updateLowResTexture :: "Texture \<Rightarrow> Bloom \<Rightarrow> Device \<Rightarrow> (Bloom \<times> Device) option" where
  "updateLowResTexture pTexture this dev =
     (case lowResWidth pTexture of
        None \<Rightarrow> None
      | Some lowResW \<Rightarrow>
          let lowResH = lowResHeight pTexture;
              createFbo =
                (case mpLowResTexture this of
                   None \<Rightarrow> True
                 | Some cur \<Rightarrow> lowResW \<noteq> width cur \<or> lowResH \<noteq> height cur
                     \<or> format pTexture \<noteq> format cur)
          in if createFbo
             then (let (tex, dev') = Texture_create2D lowResW lowResH (format pTexture) 1 1
                                       {ShaderResource, RenderTarget} dev
                   in Some (this\<lparr>mpLowResTexture := Some tex\<rparr>, dev'))
             else Some (this, dev))"

section \<open>The render context\<close>

text \<open>
  Modelled from the spec: the render context, its graphics state and the passes run
  on it (\<^verbatim>\<open>RenderContext\<close>, \<^verbatim>\<open>GraphicsState\<close>, \<^verbatim>\<open>PassFilter::execute\<close>,
  \<^verbatim>\<open>GaussianBlur::execute\<close>, \<^verbatim>\<open>FullScreenPass::execute\<close>) are outside this file. The
  graphics state holds the stack of frame buffers, the context the stack of program
  variables; the head of each stack is the one in use. The GPU work submitted to the
  context is kept as the list of commands in submission order. Each collaborator pass
  submits one command and leaves both stacks as it found them; a full-screen pass
  draws into the frame buffer in use with the program variables in use, and the
  command records both. The texture in which the filter returns its result is a
  parameter \<open>filterResult\<close> of the model.
\<close>

datatype GpuCommand =
    CmdBlit ShaderResourceView RenderTargetView
  | CmdPassFilter PassFilter Texture
  | CmdGaussianBlur GaussianBlur Texture Fbo
  | CmdFullScreenPass FullScreenPass "Fbo option" "GraphicsVars option"
      "DepthStencilState option" "BlendState option"

record GraphicsState =
  mFboStack :: "Fbo list"

record RenderContext =
  mpGraphicsState :: GraphicsState
  mGraphicsVarsStack :: "GraphicsVars list"
  commands :: "GpuCommand list"

definition submit :: "GpuCommand \<Rightarrow> RenderContext \<Rightarrow> RenderContext" where
  "submit c ctx = ctx\<lparr>commands := commands ctx @ [c]\<rparr>"

definition blit :: "ShaderResourceView \<Rightarrow> RenderTargetView \<Rightarrow> RenderContext \<Rightarrow> RenderContext" where
  "blit src dst ctx = submit (CmdBlit src dst) ctx"

definition pushFbo :: "Fbo \<Rightarrow> RenderContext \<Rightarrow> RenderContext" where
  "pushFbo fbo ctx =
     ctx\<lparr>mpGraphicsState := (mpGraphicsState ctx)\<lparr>mFboStack := fbo # mFboStack (mpGraphicsState ctx)\<rparr>\<rparr>"

definition popFbo :: "RenderContext \<Rightarrow> RenderContext" where
  "popFbo ctx =
     ctx\<lparr>mpGraphicsState := (mpGraphicsState ctx)\<lparr>mFboStack := tl (mFboStack (mpGraphicsState ctx))\<rparr>\<rparr>"

definition pushGraphicsVars :: "GraphicsVars \<Rightarrow> RenderContext \<Rightarrow> RenderContext" where
  "pushGraphicsVars vars ctx = ctx\<lparr>mGraphicsVarsStack := vars # mGraphicsVarsStack ctx\<rparr>"

definition popGraphicsVars :: "RenderContext \<Rightarrow> RenderContext" where
  "popGraphicsVars ctx = ctx\<lparr>mGraphicsVarsStack := tl (mGraphicsVarsStack ctx)\<rparr>"

definition currentFbo :: "RenderContext \<Rightarrow> Fbo option" where
  "currentFbo ctx = (case mFboStack (mpGraphicsState ctx) of [] \<Rightarrow> None | fbo # _ \<Rightarrow> Some fbo)"

definition currentVars :: "RenderContext \<Rightarrow> GraphicsVars option" where
  "currentVars ctx = (case mGraphicsVarsStack ctx of [] \<Rightarrow> None | vars # _ \<Rightarrow> Some vars)"

definition PassFilter_execute ::
  "(PassFilter \<Rightarrow> Texture \<Rightarrow> Texture) \<Rightarrow> PassFilter \<Rightarrow> RenderContext \<Rightarrow> Texture
     \<Rightarrow> Texture \<times> RenderContext" where
  "PassFilter_execute filterResult flt ctx src =
     (filterResult flt src, submit (CmdPassFilter flt src) ctx)"

definition GaussianBlur_execute ::
  "GaussianBlur \<Rightarrow> RenderContext \<Rightarrow> Texture \<Rightarrow> Fbo \<Rightarrow> RenderContext" where
  "GaussianBlur_execute blur ctx src dst = submit (CmdGaussianBlur blur src dst) ctx"

definition FullScreenPass_execute ::
  "FullScreenPass \<Rightarrow> RenderContext \<Rightarrow> DepthStencilState option \<Rightarrow> BlendState option
     \<Rightarrow> RenderContext" where
  "FullScreenPass_execute pass ctx pDsState pBlendState =
     submit (CmdFullScreenPass pass (currentFbo ctx) (currentVars ctx) pDsState pBlendState) ctx"

text \<open>
  \<^verbatim>\<open>Bloom::execute\<close>, statement by statement. The result is \<open>None\<close> where the code
  dereferences a null pointer (the frame buffer has no color texture 0) or
  \<^verbatim>\<open>updateLowResTexture\<close> is undefined.
\<close>

definition execute ::
  "(PassFilter \<Rightarrow> Texture \<Rightarrow> Texture) \<Rightarrow> RenderContext \<Rightarrow> Fbo \<Rightarrow> Bloom \<Rightarrow> Device
     \<Rightarrow> (Bloom \<times> Device \<times> RenderContext) option" where
  "execute filterResult pRenderContext pFbo this dev =
     (case getColorTexture pFbo 0 of
        None \<Rightarrow> None
      | Some pTexture \<Rightarrow>
     (case updateLowResTexture pTexture this dev of
        None \<Rightarrow> None
      | Some (this1, dev1) \<Rightarrow>
     (case mpLowResTexture this1 of
        None \<Rightarrow> None
      | Some lowRes \<Rightarrow>
          let ctx1 = blit (SRV pTexture) (RTV lowRes) pRenderContext;
              (pHighPassResult, ctx2) =
                 PassFilter_execute filterResult (mpFilter this1) ctx1 lowRes;
              this2 = this1\<lparr>mpFilterResultFbo :=
                               attachColorTarget pHighPassResult 0 (mpFilterResultFbo this1)\<rparr>;
              ctx3 = GaussianBlur_execute (mpBlur this2) ctx2 pHighPassResult
                       (mpFilterResultFbo this2);
              this3 = this2\<lparr>mpVars :=
                               setSrv (mSrcTexLoc this2) 0 (SRV pHighPassResult) (mpVars this2)\<rparr>;
              ctx4 = pushFbo pFbo ctx3;
              ctx5 = pushGraphicsVars (mpVars this3) ctx4;
              ctx6 = FullScreenPass_execute (mpBlitPass this3) ctx5 None
                       (Some (mpAdditiveBlend this3));
              ctx7 = popGraphicsVars ctx6;
              ctx8 = popFbo ctx7
          in Some (this3, dev1, ctx8))))"

section \<open>The user interface\<close>












section \<open>Properties of the rounding\<close>

lemma pow2_bitlen_bounds:
  assumes "0 < (p::int)"
  shows "(2::rat) powi (bitlen p - 1) \<le> of_int p" "of_int p < (2::rat) powi (bitlen p)"
proof -
  from bitlen_bounds[OF assms] have a: "2 ^ nat (bitlen p - 1) \<le> p" and b: "p < 2 ^ nat (bitlen p)" by auto
  have ge1: "1 \<le> bitlen p" using assms by (auto simp: bitlen_alt_def)
  have "(2::rat) powi (bitlen p - 1) = 2 ^ nat (bitlen p - 1)" using ge1 by (simp add: power_int_def)
  also have "\<dots> = of_int (2 ^ nat (bitlen p - 1))" by simp
  also have "\<dots> \<le> of_int p" using a by (simp only: of_int_le_iff)
  finally show "(2::rat) powi (bitlen p - 1) \<le> of_int p" .
  have "(of_int p :: rat) < of_int (2 ^ nat (bitlen p))" using b by (simp only: of_int_less_iff)
  also have "\<dots> = 2 powi (bitlen p)" using ge1 by (simp add: power_int_def)
  finally show "of_int p < (2::rat) powi (bitlen p)" .
qed

lemma ilog2_bounds:
  assumes "0 < x"
  shows "2 powi (ilog2 x) \<le> x" "x < 2 powi (ilog2 x + 1)"
proof -
  obtain p q where pq: "quotient_of x = (p, q)" by (cases "quotient_of x")
  have q: "0 < q" using pq by (rule quotient_of_denom_pos)
  have x: "x = of_int p / of_int q" using pq by (rule quotient_of_div)
  have p: "0 < p" using assms q x by (simp add: zero_less_divide_iff)
  define d where "d = bitlen p - bitlen q"
  note bp = pow2_bitlen_bounds[OF p] and bq = pow2_bitlen_bounds[OF q]
  have qpos: "(0::rat) < of_int q" using q by simp
  have lo: "2 powi (d - 1) \<le> x"
  proof -
    have "2 powi (d - 1) * of_int q \<le> (2::rat) powi (d - 1) * 2 powi (bitlen q)"
      using bq(2) by (intro mult_left_mono) auto
    also have "\<dots> = 2 powi (bitlen p - 1)" by (simp add: d_def flip: power_int_add)
    also have "\<dots> \<le> of_int p" by (rule bp(1))
    finally show ?thesis using qpos by (simp add: x pos_le_divide_eq)
  qed
  have hi: "x < 2 powi (d + 1)"
  proof -
    have "of_int p < (2::rat) powi (bitlen p)" by (rule bp(2))
    also have "\<dots> = 2 powi (d + 1) * 2 powi (bitlen q - 1)" by (simp add: d_def flip: power_int_add)
    also have "\<dots> \<le> 2 powi (d + 1) * of_int q" using bq(1) by (intro mult_left_mono) auto
    finally show ?thesis using qpos by (simp add: x pos_divide_less_eq)
  qed
  have il: "ilog2 x = (if 2 powi d \<le> x then d else d - 1)"
    by (simp add: ilog2_def pq d_def Let_def)
  show "2 powi (ilog2 x) \<le> x" using lo by (simp add: il)
  show "x < 2 powi (ilog2 x + 1)" using hi by (auto simp add: il not_le)
qed


lemma pow2_less_imp_less:
  assumes "(2::rat) powi a < 2 powi b"
  shows "a < b"
proof (rule ccontr)
  assume "\<not> a < b"
  then have "b \<le> a" by simp
  then have "(2::rat) powi b \<le> 2 powi a" by (rule power_int_increasing) simp
  with assms show False by simp
qed

lemma round_half_even_le:
  assumes "x \<le> of_int n"
  shows "round_half_even x \<le> n"
proof (cases "\<lfloor>x\<rfloor> = n")
  case True
  then have "of_int n \<le> x" using of_int_floor_le[of x] by simp
  with assms have "x = of_int n" by simp
  then show ?thesis by (simp add: round_half_even_def)
next
  case False
  moreover have "\<lfloor>x\<rfloor> \<le> n" using assms by (simp add: floor_le_iff)
  ultimately have "\<lfloor>x\<rfloor> + 1 \<le> n" by simp
  then show ?thesis by (simp add: round_half_even_def Let_def)
qed

lemma round_half_even_ge:
  assumes "of_int n \<le> x"
  shows "n \<le> round_half_even x"
proof -
  have "n \<le> \<lfloor>x\<rfloor>" using assms by (simp add: le_floor_iff)
  then show ?thesis by (simp add: round_half_even_def Let_def)
qed

lemma scaled_int:
  assumes "j \<le> k"
  shows "of_int m * (2::rat) powi k / 2 powi j = of_int (m * 2 ^ nat (k - j))"
proof -
  have "(2::rat) powi k = 2 powi (k - j) * 2 powi j" by (simp flip: power_int_add)
  moreover have "(2::rat) powi (k - j) = 2 ^ nat (k - j)" using assms by (simp add: power_int_def)
  ultimately show ?thesis by simp
qed

lemma f32_round_pos_unfold:
  assumes "0 < x"
  shows "f32_round x =
    (let u = 2 powi (max (ilog2 x) (- 126) - 23); y = of_int (round_half_even (x / u)) * u
     in if 2 powi 128 \<le> \<bar>y\<bar> then PInf else Finite y)"
  using assms by (simp add: f32_round_def Let_def)

lemma f32_round_le:
  assumes x: "0 < x" and xy: "x \<le> y" and y: "y = of_int m * 2 powi k"
    and m: "m < 2 ^ 24" and k: "- 149 \<le> k" and fin: "y < 2 powi 128"
  shows "\<exists>r. f32_round x = Finite r \<and> 0 \<le> r \<and> r \<le> y"
proof -
  define e where "e = max (ilog2 x) (- 126)"
  define u :: rat where "u = 2 powi (e - 23)"
  have u: "0 < u" by (simp add: u_def)
  have jk: "e - 23 \<le> k"
  proof (cases "ilog2 x \<le> - 126")
    case True
    then show ?thesis using k by (simp add: e_def)
  next
    case False
    then have e: "e = ilog2 x" by (simp add: e_def)
    have "2 powi e \<le> x" unfolding e using x by (rule ilog2_bounds)
    also have "x \<le> y" by (rule xy)
    also have "y < of_int (2 ^ 24) * 2 powi k"
      unfolding y using m by (intro mult_strict_right_mono) (simp_all only: of_int_less_iff zero_less_power_int zero_less_numeral)
    also have "\<dots> = 2 powi (24 + k)" by (simp add: power_int_add)
    finally have "e < 24 + k" by (rule pow2_less_imp_less)
    then show ?thesis by simp
  qed
  define N where "N = m * 2 ^ nat (k - (e - 23))"
  have yu: "y / u = of_int N" unfolding y u_def N_def using jk by (rule scaled_int)
  have "x / u \<le> y / u" using xy u by (simp add: divide_right_mono)
  then have le: "round_half_even (x / u) \<le> N" unfolding yu by (rule round_half_even_le)
  have "of_int 0 \<le> x / u" using x u by simp
  then have ge: "0 \<le> round_half_even (x / u)" by (rule round_half_even_ge)
  define r where "r = of_int (round_half_even (x / u)) * u"
  have r0: "0 \<le> r" using ge u by (simp add: r_def)
  have "r \<le> of_int N * u" unfolding r_def using le u by (intro mult_right_mono) simp_all
  also have "of_int N * u = y" using yu u by (simp add: field_simps)
  finally have ry: "r \<le> y" .
  have "\<bar>r\<bar> < 2 powi 128" using r0 ry fin by simp
  then have "f32_round x = Finite r"
    using x by (simp add: f32_round_pos_unfold Let_def r_def u_def e_def)
  with r0 ry show ?thesis by blast
qed

lemma f32_round_ge:
  assumes x: "0 < x" and jx: "2 powi j \<le> x" and j: "- 126 \<le> j" and r: "f32_round x = Finite r"
  shows "2 powi j \<le> r"
proof -
  define e where "e = ilog2 x"
  have "2 powi j \<le> x" by (rule jx)
  also have "x < 2 powi (e + 1)" unfolding e_def using x by (rule ilog2_bounds)
  finally have "j < e + 1" by (rule pow2_less_imp_less)
  then have je: "j \<le> e" by simp
  then have mx: "max (ilog2 x) (- 126) = e" using j by (simp add: e_def)
  define u :: rat where "u = 2 powi (e - 23)"
  have u: "0 < u" by (simp add: u_def)
  have "of_int 1 * (2::rat) powi e / 2 powi (e - 23) = of_int (1 * 2 ^ nat (e - (e - 23)))"
    by (rule scaled_int) simp
  then have eu: "2 powi e / u = of_int (2 ^ 23)" by (simp add: u_def)
  have "2 powi e \<le> x" unfolding e_def using x by (rule ilog2_bounds)
  then have "2 powi e / u \<le> x / u" using u by (simp add: divide_right_mono)
  then have "2 ^ 23 \<le> round_half_even (x / u)" unfolding eu by (rule round_half_even_ge)
  then have "(of_int (2 ^ 23) :: rat) \<le> of_int (round_half_even (x / u))" by (simp only: of_int_le_iff)
  then have "of_int (2 ^ 23) * u \<le> of_int (round_half_even (x / u)) * u"
    using u by (intro mult_right_mono) simp_all
  moreover have "of_int (2 ^ 23) * u = 2 powi e" using eu u by (simp add: field_simps)
  moreover have "r = of_int (round_half_even (x / u)) * u"
    using r x by (simp add: f32_round_pos_unfold Let_def mx u_def split: if_splits)
  moreover have "(2::rat) powi j \<le> 2 powi e" using je by (intro power_int_increasing) simp_all
  ultimately show ?thesis by simp
qed

lemma f32_round_nonneg:
  assumes "0 \<le> x" and "f32_round x = Finite r"
  shows "0 \<le> r"
proof (cases "x = 0")
  case True
  then show ?thesis using assms by (simp add: f32_round_def)
next
  case False
  then have x: "0 < x" using assms by simp
  define u :: rat where "u = 2 powi (max (ilog2 x) (- 126) - 23)"
  have u: "0 < u" by (simp add: u_def)
  have "of_int 0 \<le> x / u" using x u by simp
  then have "0 \<le> round_half_even (x / u)" by (rule round_half_even_ge)
  moreover have "r = of_int (round_half_even (x / u)) * u"
    using assms(2) x by (simp add: f32_round_pos_unfold Let_def u_def split: if_splits)
  ultimately show ?thesis using u by simp
qed

lemma f32_round_le0:
  assumes x: "0 \<le> x" and xy: "x \<le> y" and y: "y = of_int m * 2 powi k"
    and m: "m < 2 ^ 24" and k: "- 149 \<le> k" and fin: "y < 2 powi 128"
  shows "\<exists>r. f32_round x = Finite r \<and> 0 \<le> r \<and> r \<le> y"
proof (cases "x = 0")
  case True
  then show ?thesis using xy by (simp add: f32_round_def)
next
  case False
  then have "0 < x" using x by simp
  then show ?thesis using xy y m k fin by (rule f32_round_le)
qed

lemma f32_round_nat_finite:
  assumes "n < (2::nat) ^ 32"
  shows "\<exists>r. f32_round (of_nat n) = Finite r \<and> 0 \<le> r \<and> r \<le> 2 ^ 32"
proof -
  have "(of_nat n :: rat) \<le> of_nat (2 ^ 32)" using assms by (simp only: of_nat_le_iff)
  then have "(of_nat n :: rat) \<le> 2 ^ 32" by simp
  moreover have "(2::rat) ^ 32 = of_int 1 * 2 powi 32" by simp
  moreover have "(2::rat) ^ 32 < 2 powi 128" by simp
  ultimately show ?thesis
    by (intro f32_round_le0[where m = 1 and k = 32]) simp_all
qed

lemma f32_round_nat_le:
  assumes "n < (2::nat) ^ 24"
  shows "\<exists>r. f32_round (of_nat n) = Finite r \<and> 0 \<le> r \<and> r \<le> of_nat n"
proof -
  have "(of_nat n :: rat) = of_int (int n) * 2 powi 0" by simp
  moreover have "int n < 2 ^ 24" using assms by simp
  moreover have "(of_nat n :: rat) < 2 powi 128"
  proof -
    have "(of_nat n :: rat) < of_nat (2 ^ 24)" using assms by (simp only: of_nat_less_iff)
    then show ?thesis by simp
  qed
  ultimately show ?thesis
    by (intro f32_round_le0[where m = "int n" and k = 0]) simp_all
qed

lemma f32_round_nat_ge:
  assumes "(2::nat) ^ j \<le> n" and "n < (2::nat) ^ 32"
  shows "\<exists>r. f32_round (of_nat n) = Finite r \<and> 2 ^ j \<le> r"
proof -
  obtain r where r: "f32_round (of_nat n) = Finite r"
    using f32_round_nat_finite[OF assms(2)] by blast
  have "(of_nat (2 ^ j) :: rat) \<le> of_nat n" using assms(1) by (simp only: of_nat_le_iff)
  then have le: "(2::rat) ^ j \<le> of_nat n" by simp
  then have pos: "(0::rat) < of_nat n" by (rule less_le_trans[rotated]) simp
  have "(2::rat) powi (int j) \<le> r"
    using pos _ _ r by (rule f32_round_ge) (use le in simp_all)
  with r show ?thesis by simp
qed

lemma scaled_aspect_nat:
  fixes W H :: nat
  assumes w: "W < 2 ^ 24" and h: "2 ^ j \<le> H" and h32: "H < 2 ^ 32" and j: "j \<le> 8"
  shows "\<exists>v. f32_mul (Finite 256) (f32_div (f32_round (of_nat W)) (f32_round (of_nat H))) = Finite v
           \<and> 0 \<le> v \<and> v \<le> of_nat W * 2 ^ (8 - j)"
proof -
  define Wr :: rat where "Wr = of_nat W"
  have Wm: "Wr = of_int (int W)" by (simp add: Wr_def)
  have m: "int W < 2 ^ 24" using w by simp
  have W0: "0 \<le> Wr" by (simp add: Wr_def)
  have W24: "Wr < 2 ^ 24"
  proof -
    have "(of_nat W :: rat) < of_nat (2 ^ 24)" using w by (simp only: of_nat_less_iff)
    then show ?thesis by (simp add: Wr_def)
  qed
  obtain wf where wf: "f32_round (of_nat W) = Finite wf" "0 \<le> wf" "wf \<le> Wr"
    using f32_round_nat_le[OF w] by (auto simp: Wr_def)
  obtain hf where hf: "f32_round (of_nat H) = Finite hf" "2 ^ j \<le> hf"
    using f32_round_nat_ge[OF h h32] by auto
  have hpos: "0 < hf" using hf(2) by (rule less_le_trans[rotated]) simp
  have q0: "0 \<le> wf / hf" using wf(2) hpos by simp
  have "wf / hf \<le> Wr / 2 ^ j"
    using wf(2,3) hf(2) by (intro frac_le) simp_all
  also have "Wr / 2 ^ j = of_int (int W) * 2 powi (- int j)"
    by (simp add: Wm power_int_minus field_simps)
  finally have q1: "wf / hf \<le> of_int (int W) * 2 powi (- int j)" .
  have sc: "Wr / 2 ^ j = of_int (int W) * 2 powi (- int j)"
    by (simp add: Wm power_int_minus field_simps)
  have "Wr / 2 ^ j \<le> Wr" using W0 by (simp add: divide_le_eq mult_le_cancel_left1)
  also have "Wr < 2 ^ 24" by (rule W24)
  also have "(2::rat) ^ 24 < 2 powi 128" by simp
  finally have fin1: "of_int (int W) * 2 powi (- int j) < (2::rat) powi 128"
    unfolding sc .
  obtain a where a: "f32_round (wf / hf) = Finite a" "0 \<le> a"
      "a \<le> of_int (int W) * 2 powi (- int j)"
    using f32_round_le0[OF q0 q1 refl m _ fin1] j by auto
  have asp: "f32_div (f32_round (of_nat W)) (f32_round (of_nat H)) = Finite a"
    using hpos by (simp add: wf(1) hf(1) a(1))
  have s0: "0 \<le> 256 * a" using a(2) by simp
  have "256 * a \<le> 256 * (of_int (int W) * 2 powi (- int j))"
    using a(3) by simp
  also have "\<dots> = of_int (int W) * 2 powi (8 - int j)"
    by (simp add: power_int_diff power_int_minus field_simps)
  finally have s1: "256 * a \<le> of_int (int W) * 2 powi (8 - int j)" .
  have pw: "(2::rat) powi (8 - int j) = 2 ^ (8 - j)"
    using j by (simp add: power_int_def nat_diff_distrib')
  have p8: "(2::rat) ^ (8 - j) \<le> 2 ^ 8" by (rule power_increasing) simp_all
  have "Wr * 2 ^ (8 - j) < 2 ^ 24 * 2 ^ 8"
    using W24 p8 W0 by (rule mult_less_le_imp_less) simp
  then have fin2: "of_int (int W) * 2 powi (8 - int j) < (2::rat) powi 128"
    unfolding pw Wm[symmetric] by simp
  obtain v where v: "f32_round (256 * a) = Finite v" "0 \<le> v"
      "v \<le> of_int (int W) * 2 powi (8 - int j)"
    using f32_round_le0[OF s0 s1 refl m _ fin2] j by auto
  show ?thesis using v by (simp add: asp pw)
qed

lemma f32_of_u32_nat: "f32_of_u32 n = f32_round (of_nat (unat n))"
  by (simp add: f32_of_u32_def)

section \<open>The low-resolution texture\<close>

lemma u32_of_f32_nonneg:
  assumes "0 \<le> v" and "v < 2 ^ 32"
  shows "u32_of_f32 (Finite v) = Some (word_of_int \<lfloor>v\<rfloor>)"
    and "unat (word_of_int \<lfloor>v\<rfloor> :: 32 word) = nat \<lfloor>v\<rfloor>"
proof -
  show "u32_of_f32 (Finite v) = Some (word_of_int \<lfloor>v\<rfloor>)" using assms by simp
  have "0 \<le> \<lfloor>v\<rfloor>" using assms(1) by simp
  moreover have "\<lfloor>v\<rfloor> < 2 ^ 32" using assms(2) by (simp add: floor_less_iff)
  ultimately show "unat (word_of_int \<lfloor>v\<rfloor> :: 32 word) = nat \<lfloor>v\<rfloor>"
    by (simp add: unat_eq_nat_uint uint_word_of_int take_bit_eq_mod)
qed

lemma lowResWidth_bound:
  assumes w: "unat (width t) < 2 ^ 24" and h: "2 ^ j \<le> unat (height t)" and j: "j \<le> 8"
  shows "\<exists>lw. lowResWidth t = Some lw \<and> unat lw \<le> unat (width t) * 2 ^ (8 - j)"
proof -
  have h32: "unat (height t) < 2 ^ 32" using unsigned_less[of "height t"] by simp
  obtain v where v: "f32_mul (Finite 256) (aspectRatio t) = Finite v" "0 \<le> v"
      "v \<le> of_nat (unat (width t)) * 2 ^ (8 - j)"
    using scaled_aspect_nat[OF w h h32 j] unfolding aspectRatio_def f32_of_u32_nat by blast
  define B where "B = unat (width t) * 2 ^ (8 - j)"
  have vB: "v \<le> of_nat B" using v(3) by (simp add: B_def)
  have p8: "(2::nat) ^ (8 - j) \<le> 2 ^ 8" by (rule power_increasing) simp_all
  have "B < 2 ^ 24 * 2 ^ 8"
    unfolding B_def using w p8 by (rule mult_less_le_imp_less) simp_all
  then have B32: "B < 2 ^ 32" by simp
  have "(of_nat B :: rat) < of_nat (2 ^ 32)" using B32 by (simp only: of_nat_less_iff)
  then have v32: "v < 2 ^ 32" using vB by simp
  define a :: "32 word" where "a = word_of_int \<lfloor>v\<rfloor>"
  have ua: "u32_of_f32 (Finite v) = Some a" and na: "unat a = nat \<lfloor>v\<rfloor>"
    unfolding a_def using v(2) v32 by (rule u32_of_f32_nonneg)+
  have "\<lfloor>v\<rfloor> \<le> int B" using vB by (simp add: floor_le_iff)
  then have aB: "unat a \<le> B" by (simp add: na)
  have "unat (width t div 4) \<le> unat (width t)" by (simp add: unat_div)
  also have "\<dots> \<le> B" by (simp add: B_def)
  finally have dB: "unat (width t div 4) \<le> B" .
  have "unat (max (width t div 4) a) \<le> B"
    using aB dB by (simp add: max_def)
  moreover have "lowResWidth t = Some (max (width t div 4) a)"
    by (simp add: lowResWidth_def v(1) ua del: u32_of_f32.simps)
  ultimately show ?thesis by (simp add: B_def)
qed

lemma lowResHeight_le:
  assumes "256 \<le> height t"
  shows "lowResHeight t \<le> height t"
proof -
  have "unat (height t div 4) \<le> unat (height t)" by (simp add: unat_div)
  then have "height t div 4 \<le> height t" by (simp add: word_le_nat_alt)
  with assms show ?thesis by (simp add: lowResHeight_def)
qed

lemma updateLowResTexture_result:
  assumes "updateLowResTexture t this dev = Some (this', dev')"
  shows "\<exists>lw lr. lowResWidth t = Some lw \<and> mpLowResTexture this' = Some lr
           \<and> width lr = lw \<and> height lr = lowResHeight t \<and> format lr = format t"
  using assms
  by (auto simp: updateLowResTexture_def Texture_create2D_def Let_def
           split: option.splits if_splits)

lemma updateLowResTexture_defined:
  assumes "lowResWidth t = Some lw"
  shows "\<exists>r. updateLowResTexture t this dev = Some r"
  using assms by (simp add: updateLowResTexture_def Let_def split_beta)

section \<open>Unfolding the methods\<close>

lemma updateLowResTexture_frame:
  assumes "updateLowResTexture t this dev = Some (this', dev')"
  shows "this' = this\<lparr>mpLowResTexture := mpLowResTexture this'\<rparr>"
  using assms
  by (auto simp: updateLowResTexture_def Texture_create2D_def Let_def
           split: option.splits if_splits)

lemma updateLowResTexture_cases:
  assumes "updateLowResTexture t this dev = Some (this', dev')"
    and "lowResWidth t = Some lw"
  shows "(case mpLowResTexture this of
            None \<Rightarrow> True
          | Some cur \<Rightarrow> lw \<noteq> width cur \<or> lowResHeight t \<noteq> height cur \<or> format t \<noteq> format cur)
         \<and> dev' = dev\<lparr>texturesCreated := Suc (texturesCreated dev)\<rparr>
         \<and> this' = this\<lparr>mpLowResTexture := Some
              \<lparr>texId = texturesCreated dev, width = lw, height = lowResHeight t, format = format t,
               arraySize = 1, mipLevels = 1, bindFlags = {ShaderResource, RenderTarget}\<rparr>\<rparr>
       \<or> (\<exists>cur. mpLowResTexture this = Some cur \<and> lw = width cur \<and> lowResHeight t = height cur
             \<and> format t = format cur) \<and> dev' = dev \<and> this' = this"
  using assms
  by (auto simp: updateLowResTexture_def Texture_create2D_def Let_def
           split: option.splits if_splits)

lemma execute_unfold:
  assumes "execute filterResult ctx pFbo this dev = Some (this', dev', ctx')"
  shows "\<exists>pTexture this1 lowRes.
      getColorTexture pFbo 0 = Some pTexture
    \<and> updateLowResTexture pTexture this dev = Some (this1, dev')
    \<and> mpLowResTexture this1 = Some lowRes
    \<and> this' = this1
        \<lparr>mpFilterResultFbo :=
           attachColorTarget (filterResult (mpFilter this) lowRes) 0 (mpFilterResultFbo this),
         mpVars := setSrv (mSrcTexLoc this) 0 (SRV (filterResult (mpFilter this) lowRes)) (mpVars this)\<rparr>
    \<and> ctx' = ctx\<lparr>commands := commands ctx @
         [CmdBlit (SRV pTexture) (RTV lowRes),
          CmdPassFilter (mpFilter this) lowRes,
          CmdGaussianBlur (mpBlur this) (filterResult (mpFilter this) lowRes)
            (attachColorTarget (filterResult (mpFilter this) lowRes) 0 (mpFilterResultFbo this)),
          CmdFullScreenPass (mpBlitPass this) (Some pFbo)
            (Some (setSrv (mSrcTexLoc this) 0 (SRV (filterResult (mpFilter this) lowRes)) (mpVars this)))
            None (Some (mpAdditiveBlend this))]\<rparr>"
proof -
  from assms obtain pTexture where t: "getColorTexture pFbo 0 = Some pTexture"
    by (auto simp: execute_def split: option.splits)
  from assms t obtain this1 dev1 where u: "updateLowResTexture pTexture this dev = Some (this1, dev1)"
    by (auto simp: execute_def split: option.splits)
  from assms t u obtain lowRes where l: "mpLowResTexture this1 = Some lowRes"
    by (auto simp: execute_def split: option.splits)
  note fr = updateLowResTexture_frame[OF u]
  have f: "mpFilter this1 = mpFilter this" "mpBlur this1 = mpBlur this"
    "mpFilterResultFbo this1 = mpFilterResultFbo this" "mpVars this1 = mpVars this"
    "mSrcTexLoc this1 = mSrcTexLoc this" "mpBlitPass this1 = mpBlitPass this"
    "mpAdditiveBlend this1 = mpAdditiveBlend this"
    by (subst fr, simp)+
  from assms show ?thesis
    by (simp add: execute_def t u l Let_def f PassFilter_execute_def GaussianBlur_execute_def
        FullScreenPass_execute_def blit_def submit_def pushFbo_def popFbo_def
        pushGraphicsVars_def popGraphicsVars_def currentFbo_def currentVars_def)
qed

lemma execute_defined:
  assumes "getColorTexture pFbo 0 = Some pTexture" and "lowResWidth pTexture = Some lw"
  shows "\<exists>r. execute filterResult ctx pFbo this dev = Some r"
proof -
  obtain this1 dev1 where u: "updateLowResTexture pTexture this dev = Some (this1, dev1)"
    using updateLowResTexture_defined[OF assms(2)] by fastforce
  obtain lowRes where l: "mpLowResTexture this1 = Some lowRes"
    using updateLowResTexture_result[OF u] by blast
  show ?thesis by (simp add: execute_def assms(1) u l Let_def split_beta)
qed

section \<open>Concrete runs\<close>

text \<open>
  Evaluations of the model at concrete inputs, used for the examples below. A
  1920 x 1080 input gives a 480 x 270 texture; a 100 x 100 input gives 256 x 256; a
  height of 0 or a scaled aspect ratio from \<open>2 ^ 32\<close> leaves the conversion undefined.
\<close>

lemma mpLowResTexture_Bloom_create [simp]:
  "mpLowResTexture (Bloom_create threshold kernelSize sigma) = None"
  by (simp add: Bloom_create_def Bloom_ctor_def Let_def)

lemma mpFilter_Bloom_create:
  "mpFilter (Bloom_create threshold kernelSize sigma) = PassFilter_create HighPass threshold"
  by (simp add: Bloom_create_def Bloom_ctor_def Let_def)

lemma mpBlur_Bloom_create:
  "mpBlur (Bloom_create threshold kernelSize sigma) = GaussianBlur_create kernelSize sigma"
  by (simp add: Bloom_create_def Bloom_ctor_def Let_def)

lemma lowResWidth_100x100:
  "lowResWidth \<lparr>texId = i, width = 100, height = 100, format = fmt,
     arraySize = 1, mipLevels = 1, bindFlags = fl\<rparr> = Some 256"
  by code_simp

lemma lowResWidth_1920x1080:
  "lowResWidth \<lparr>texId = i, width = 1920, height = 1080, format = fmt,
     arraySize = 1, mipLevels = 1, bindFlags = fl\<rparr> = Some 480"
  by code_simp

lemma lowResWidth_wide:
  "lowResWidth \<lparr>texId = 0, width = 16777219, height = 256, format = ResourceFormat 0,
     arraySize = 1, mipLevels = 1, bindFlags = {ShaderResource}\<rparr> = Some 16777220"
  by code_simp

lemma lowResWidth_overflow:
  "lowResWidth \<lparr>texId = 0, width = 16777216, height = 1, format = ResourceFormat 0,
     arraySize = 1, mipLevels = 1, bindFlags = {ShaderResource, RenderTarget}\<rparr> = None"
  by code_simp

lemma lowResWidth_height_0:
  assumes "height t = 0"
  shows "lowResWidth t = None"
proof -
  have w32: "unat (width t) < 2 ^ 32" using unsigned_less[of "width t"] by simp
  obtain wf where wf: "f32_of_u32 (width t) = Finite wf"
    using f32_round_nat_finite[OF w32] unfolding f32_of_u32_nat by blast
  have "f32_of_u32 (height t) = Finite 0" by (simp add: assms f32_of_u32_def f32_round_def)
  then show ?thesis by (simp add: lowResWidth_def aspectRatio_def wf)
qed

lemma updateLowResTexture_total:
  assumes "0 < height t" and "width t < 2 ^ 24"
  shows "\<exists>r. updateLowResTexture t this dev = Some r"
proof -
  have "0 < unat (height t)" using assms(1) by (simp add: word_less_nat_alt)
  then have h: "2 ^ 0 \<le> unat (height t)" by simp
  have w: "unat (width t) < 2 ^ 24" using assms(2) by (simp add: word_less_nat_alt)
  obtain lw where "lowResWidth t = Some lw" using lowResWidth_bound[OF w h] by auto
  then show ?thesis by (rule updateLowResTexture_defined)
qed

lemma update_1920x1080_fresh:
  "updateLowResTexture
     \<lparr>texId = 0, width = 1920, height = 1080, format = ResourceFormat 0,
      arraySize = 1, mipLevels = 1, bindFlags = {ShaderResource, RenderTarget}\<rparr>
     (Bloom_create (Finite 1) 5 (Finite 2)) \<lparr>texturesCreated = 1\<rparr>
   = Some ((Bloom_create (Finite 1) 5 (Finite 2))\<lparr>mpLowResTexture := Some
       \<lparr>texId = 1, width = 480, height = 270, format = ResourceFormat 0,
        arraySize = 1, mipLevels = 1, bindFlags = {ShaderResource, RenderTarget}\<rparr>\<rparr>,
      \<lparr>texturesCreated = 2\<rparr>)"
  by (simp add: updateLowResTexture_def lowResWidth_1920x1080 lowResHeight_def
      Texture_create2D_def Let_def)

lemma execute_1920x1080_defined:
  "\<exists>this' dev' ctx'.
     execute (\<lambda>flt src. src\<lparr>texId := 2\<rparr>)
       \<lparr>mpGraphicsState = \<lparr>mFboStack = [Fbo_create]\<rparr>, mGraphicsVarsStack = [], commands = []\<rparr>
       \<lparr>colorTargets = [0 \<mapsto> \<lparr>texId = 0, width = 1920, height = 1080, format = ResourceFormat 0,
          arraySize = 1, mipLevels = 1, bindFlags = {ShaderResource, RenderTarget}\<rparr>]\<rparr>
       (Bloom_create (Finite 1) 5 (Finite 2)) \<lparr>texturesCreated = 1\<rparr>
     = Some (this', dev', ctx')"
proof -
  have "getColorTexture
       \<lparr>colorTargets = [0 \<mapsto> \<lparr>texId = 0, width = 1920, height = 1080, format = ResourceFormat 0,
          arraySize = 1, mipLevels = 1, bindFlags = {ShaderResource, RenderTarget}\<rparr>]\<rparr> 0
      = Some \<lparr>texId = 0, width = 1920, height = 1080, format = ResourceFormat 0,
          arraySize = 1, mipLevels = 1, bindFlags = {ShaderResource, RenderTarget}\<rparr>"
    by (simp add: getColorTexture_def)
  from execute_defined[OF this lowResWidth_1920x1080] show ?thesis
    by (metis prod_cases3)
qed

lemma lowResWidth_floor:
  assumes "lowResWidth t = Some lw"
  shows "\<exists>v. f32_mul (Finite 256) (f32_div (f32_of_u32 (width t)) (f32_of_u32 (height t))) = Finite v
           \<and> 0 \<le> v \<and> lw = max (width t div 4) (word_of_int \<lfloor>v\<rfloor>)"
proof -
  have w32: "unat (width t) < 2 ^ 32" using unsigned_less[of "width t"] by simp
  have h32: "unat (height t) < 2 ^ 32" using unsigned_less[of "height t"] by simp
  obtain wf where wf: "f32_of_u32 (width t) = Finite wf" "0 \<le> wf"
    using f32_round_nat_finite[OF w32] unfolding f32_of_u32_nat by blast
  obtain hf where hf: "f32_of_u32 (height t) = Finite hf" "0 \<le> hf"
    using f32_round_nat_finite[OF h32] unfolding f32_of_u32_nat by blast
  define X where "X = f32_mul (Finite 256) (f32_div (Finite wf) (Finite hf))"
  from assms obtain a where a: "u32_of_f32 X = Some a" "lw = max (width t div 4) a"
    by (auto simp: lowResWidth_def aspectRatio_def wf(1) hf(1) X_def split: option.splits)
  from a(1) obtain v where v: "X = Finite v" by (cases X) simp_all
  have hz: "hf \<noteq> 0"
  proof
    assume "hf = 0"
    then have "X = NaN \<or> X = PInf" using wf(2) by (simp add: X_def)
    with v show False by auto
  qed
  obtain q where q: "f32_round (wf / hf) = Finite q"
    using v hz by (cases "f32_round (wf / hf)") (simp_all add: X_def)
  have q0: "0 \<le> q" using _ q by (rule f32_round_nonneg) (use wf(2) hf(2) in simp)
  have "f32_round (256 * q) = Finite v" using v hz q by (simp add: X_def)
  then have v0: "0 \<le> v" using _ by (rule f32_round_nonneg[rotated]) (use q0 in simp)
  have "a = word_of_int \<lfloor>v\<rfloor>" using a(1) v v0 by (simp split: if_splits)
  then show ?thesis using v v0 a(2) by (simp add: X_def wf(1) hf(1))
qed

lemma execute_keeps_blend:
  assumes "execute filterResult ctx pFbo this dev = Some (this', dev', ctx')"
  shows "mpAdditiveBlend this' = mpAdditiveBlend this"
    and "\<exists>tgt vars. last (commands ctx') =
           CmdFullScreenPass (mpBlitPass this) tgt vars None (Some (mpAdditiveBlend this))"
proof -
  from execute_unfold[OF assms] obtain pTexture this1 lowRes where
    e: "updateLowResTexture pTexture this dev = Some (this1, dev')"
       "this' = this1
          \<lparr>mpFilterResultFbo :=
             attachColorTarget (filterResult (mpFilter this) lowRes) 0 (mpFilterResultFbo this),
           mpVars := setSrv (mSrcTexLoc this) 0 (SRV (filterResult (mpFilter this) lowRes)) (mpVars this)\<rparr>"
       "ctx' = ctx\<lparr>commands := commands ctx @
         [CmdBlit (SRV pTexture) (RTV lowRes),
          CmdPassFilter (mpFilter this) lowRes,
          CmdGaussianBlur (mpBlur this) (filterResult (mpFilter this) lowRes)
            (attachColorTarget (filterResult (mpFilter this) lowRes) 0 (mpFilterResultFbo this)),
          CmdFullScreenPass (mpBlitPass this) (Some pFbo)
            (Some (setSrv (mSrcTexLoc this) 0 (SRV (filterResult (mpFilter this) lowRes)) (mpVars this)))
            None (Some (mpAdditiveBlend this))]\<rparr>"
    by blast
  have "mpAdditiveBlend this1 = mpAdditiveBlend this"
    by (subst updateLowResTexture_frame[OF e(1)]) simp
  then show "mpAdditiveBlend this' = mpAdditiveBlend this" by (simp add: e(2))
  show "\<exists>tgt vars. last (commands ctx') =
           CmdFullScreenPass (mpBlitPass this) tgt vars None (Some (mpAdditiveBlend this))"
    by (simp add: e(3))
qed





section \<open>Properties of the effect\<close>

text \<open>
  Claim C1. Every call of \<^verbatim>\<open>Bloom::execute\<close> that returns submits exactly four
  commands, in this order: the blit of color texture 0 of the frame buffer into the
  low-resolution texture, the filter on the low-resolution texture, the Gaussian blur
  on the filter result (into the frame buffer that result is attached to), and the
  full-screen blit pass, which draws into the input frame buffer with the additive
  blend state and reads the blurred texture through the source binding.
\<close>

theorem execute_stages:
  assumes "execute filterResult ctx pFbo this dev = Some (this', dev', ctx')"
  shows "\<exists>pTexture lowRes blurred.
      getColorTexture pFbo 0 = Some pTexture
    \<and> mpLowResTexture this' = Some lowRes
    \<and> blurred = filterResult (mpFilter this) lowRes
    \<and> commands ctx' = commands ctx @
         [CmdBlit (SRV pTexture) (RTV lowRes),
          CmdPassFilter (mpFilter this) lowRes,
          CmdGaussianBlur (mpBlur this) blurred
            (attachColorTarget blurred 0 (mpFilterResultFbo this)),
          CmdFullScreenPass (mpBlitPass this) (Some pFbo) (Some (mpVars this')) None
            (Some (mpAdditiveBlend this))]
    \<and> srvs (mpVars this') (mSrcTexLoc this, 0) = Some (SRV blurred)"
proof -
  from execute_unfold[OF assms] obtain pTexture this1 lowRes where
    e: "getColorTexture pFbo 0 = Some pTexture"
       "mpLowResTexture this1 = Some lowRes"
       "this' = this1
          \<lparr>mpFilterResultFbo :=
             attachColorTarget (filterResult (mpFilter this) lowRes) 0 (mpFilterResultFbo this),
           mpVars := setSrv (mSrcTexLoc this) 0 (SRV (filterResult (mpFilter this) lowRes)) (mpVars this)\<rparr>"
       "ctx' = ctx\<lparr>commands := commands ctx @
         [CmdBlit (SRV pTexture) (RTV lowRes),
          CmdPassFilter (mpFilter this) lowRes,
          CmdGaussianBlur (mpBlur this) (filterResult (mpFilter this) lowRes)
            (attachColorTarget (filterResult (mpFilter this) lowRes) 0 (mpFilterResultFbo this)),
          CmdFullScreenPass (mpBlitPass this) (Some pFbo)
            (Some (setSrv (mSrcTexLoc this) 0 (SRV (filterResult (mpFilter this) lowRes)) (mpVars this)))
            None (Some (mpAdditiveBlend this))]\<rparr>"
    by blast
  show ?thesis using e(1) by (simp add: e(2,3,4) setSrv_def)
qed

text \<open>
  C1 at a 1920 x 1080 frame buffer.
\<close>

theorem execute_stages_witness:
  "\<exists>this' dev' ctx'.
     execute (\<lambda>flt src. src\<lparr>texId := 2\<rparr>)
       \<lparr>mpGraphicsState = \<lparr>mFboStack = [Fbo_create]\<rparr>, mGraphicsVarsStack = [], commands = []\<rparr>
       \<lparr>colorTargets = [0 \<mapsto> \<lparr>texId = 0, width = 1920, height = 1080, format = ResourceFormat 0,
          arraySize = 1, mipLevels = 1, bindFlags = {ShaderResource, RenderTarget}\<rparr>]\<rparr>
       (Bloom_create (Finite 1) 5 (Finite 2)) \<lparr>texturesCreated = 1\<rparr>
     = Some (this', dev', ctx')
   \<and> (\<exists>pTexture lowRes blurred.
        mpLowResTexture this' = Some lowRes
      \<and> blurred = lowRes\<lparr>texId := 2\<rparr>
      \<and> commands ctx' =
         [CmdBlit (SRV pTexture) (RTV lowRes),
          CmdPassFilter (PassFilter_create HighPass (Finite 1)) lowRes,
          CmdGaussianBlur (GaussianBlur_create 5 (Finite 2)) blurred
            (attachColorTarget blurred 0
               (mpFilterResultFbo (Bloom_create (Finite 1) 5 (Finite 2)))),
          CmdFullScreenPass (mpBlitPass (Bloom_create (Finite 1) 5 (Finite 2)))
            (Some \<lparr>colorTargets = [0 \<mapsto> pTexture]\<rparr>) (Some (mpVars this')) None
            (Some (mpAdditiveBlend (Bloom_create (Finite 1) 5 (Finite 2))))])"
proof -
  from execute_1920x1080_defined obtain this' dev' ctx' where
    e: "execute (\<lambda>flt src. src\<lparr>texId := 2\<rparr>)
       \<lparr>mpGraphicsState = \<lparr>mFboStack = [Fbo_create]\<rparr>, mGraphicsVarsStack = [], commands = []\<rparr>
       \<lparr>colorTargets = [0 \<mapsto> \<lparr>texId = 0, width = 1920, height = 1080, format = ResourceFormat 0,
          arraySize = 1, mipLevels = 1, bindFlags = {ShaderResource, RenderTarget}\<rparr>]\<rparr>
       (Bloom_create (Finite 1) 5 (Finite 2)) \<lparr>texturesCreated = 1\<rparr>
     = Some (this', dev', ctx')"
    by blast
  from execute_stages[OF e] show ?thesis
    unfolding e
    by (auto simp: getColorTexture_def mpFilter_Bloom_create mpBlur_Bloom_create)
qed

text \<open>
  Claim C2 as stated fails: with a 256 x 256 low-resolution texture of format 0 in
  place, an input of 100 x 100 and format 1 has the same target dimensions, and the
  texture is created anew (object 2 replaces object 1), because the format differs.
\<close>

theorem realloc_iff_dims_counterexample:
  "updateLowResTexture
     \<lparr>texId = 0, width = 100, height = 100, format = ResourceFormat 1,
      arraySize = 1, mipLevels = 1, bindFlags = {ShaderResource, RenderTarget}\<rparr>
     ((Bloom_create (Finite 1) 5 (Finite 2))\<lparr>mpLowResTexture := Some
       \<lparr>texId = 1, width = 256, height = 256, format = ResourceFormat 0,
        arraySize = 1, mipLevels = 1, bindFlags = {ShaderResource, RenderTarget}\<rparr>\<rparr>)
     \<lparr>texturesCreated = 2\<rparr>
   = Some ((Bloom_create (Finite 1) 5 (Finite 2))\<lparr>mpLowResTexture := Some
       \<lparr>texId = 2, width = 256, height = 256, format = ResourceFormat 1,
        arraySize = 1, mipLevels = 1, bindFlags = {ShaderResource, RenderTarget}\<rparr>\<rparr>,
      \<lparr>texturesCreated = 3\<rparr>)
   \<and> lowResWidth \<lparr>texId = 0, width = 100, height = 100, format = ResourceFormat 1,
        arraySize = 1, mipLevels = 1, bindFlags = {ShaderResource, RenderTarget}\<rparr> = Some 256
   \<and> lowResHeight \<lparr>texId = 0, width = 100, height = 100, format = ResourceFormat 1,
        arraySize = 1, mipLevels = 1, bindFlags = {ShaderResource, RenderTarget}\<rparr> = 256"
  by (simp add: updateLowResTexture_def lowResWidth_100x100 lowResHeight_def
      Texture_create2D_def Let_def)

text \<open>
  Claim C2, amended. \<^verbatim>\<open>Bloom::updateLowResTexture\<close> creates a texture if and only if
  there is no low-resolution texture yet, or the computed target width or height
  differs from the current texture's, or the input's format differs from the current
  texture's format. The created texture is a new object; in all other cases the
  effect and the device are left unchanged.
\<close>

theorem realloc_iff_properties_changed:
  assumes "updateLowResTexture pTexture this dev = Some (this', dev')"
  shows "(texturesCreated dev' \<noteq> texturesCreated dev \<longleftrightarrow>
            (case mpLowResTexture this of
               None \<Rightarrow> True
             | Some cur \<Rightarrow> lowResWidth pTexture \<noteq> Some (width cur)
                 \<or> lowResHeight pTexture \<noteq> height cur
                 \<or> format pTexture \<noteq> format cur))
       \<and> (texturesCreated dev' \<noteq> texturesCreated dev \<longrightarrow>
            (\<exists>tex. mpLowResTexture this' = Some tex \<and> texId tex = texturesCreated dev)
            \<and> texturesCreated dev' = Suc (texturesCreated dev))
       \<and> (texturesCreated dev' = texturesCreated dev \<longrightarrow> this' = this \<and> dev' = dev)"
proof -
  obtain lw where lw: "lowResWidth pTexture = Some lw"
    using updateLowResTexture_result[OF assms] by blast
  from updateLowResTexture_cases[OF assms lw] show ?thesis
    by (auto simp: lw split: option.splits)
qed

text \<open>
  C2 at a fresh effect and a 1920 x 1080 input.
\<close>

theorem realloc_iff_properties_changed_witness:
  "updateLowResTexture
     \<lparr>texId = 0, width = 1920, height = 1080, format = ResourceFormat 0,
      arraySize = 1, mipLevels = 1, bindFlags = {ShaderResource, RenderTarget}\<rparr>
     (Bloom_create (Finite 1) 5 (Finite 2)) \<lparr>texturesCreated = 1\<rparr>
   = Some ((Bloom_create (Finite 1) 5 (Finite 2))\<lparr>mpLowResTexture := Some
       \<lparr>texId = 1, width = 480, height = 270, format = ResourceFormat 0,
        arraySize = 1, mipLevels = 1, bindFlags = {ShaderResource, RenderTarget}\<rparr>\<rparr>,
      \<lparr>texturesCreated = 2\<rparr>)
   \<and> texturesCreated \<lparr>texturesCreated = 2\<rparr> \<noteq> texturesCreated \<lparr>texturesCreated = 1\<rparr>
   \<and> mpLowResTexture (Bloom_create (Finite 1) 5 (Finite 2)) = None"
  using realloc_iff_properties_changed[OF update_1920x1080_fresh] update_1920x1080_fresh
  by (simp split: option.splits)

text \<open>
  Claim C3 as stated fails: for a 100 x 100 input the low-resolution texture is
  256 x 256, larger than the input in both directions.
\<close>

theorem lowRes_not_smaller_counterexample:
  "updateLowResTexture
     \<lparr>texId = 0, width = 100, height = 100, format = ResourceFormat 0,
      arraySize = 1, mipLevels = 1, bindFlags = {ShaderResource, RenderTarget}\<rparr>
     (Bloom_create (Finite 1) 5 (Finite 2)) \<lparr>texturesCreated = 1\<rparr>
   = Some ((Bloom_create (Finite 1) 5 (Finite 2))\<lparr>mpLowResTexture := Some
       \<lparr>texId = 1, width = 256, height = 256, format = ResourceFormat 0,
        arraySize = 1, mipLevels = 1, bindFlags = {ShaderResource, RenderTarget}\<rparr>\<rparr>,
      \<lparr>texturesCreated = 2\<rparr>)
   \<and> \<not> (256 :: 32 word) \<le> 100"
  by (simp add: updateLowResTexture_def lowResWidth_100x100 lowResHeight_def
      Texture_create2D_def Let_def)

text \<open>
  Claim C3, amended. For every input texture of height at least 256 and width below
  \<open>2 ^ 24\<close>, \<^verbatim>\<open>Bloom::updateLowResTexture\<close> returns and the width and height of the
  low-resolution texture are each no greater than the input's. (Both bounds are needed:
  the height is never below 256, and \<open>lowResWidth_wide\<close> shows a width of
  \<open>2 ^ 24 + 3\<close> rounded up by the conversion to \<^verbatim>\<open>float\<close>.)
\<close>

theorem lowRes_not_larger:
  assumes "256 \<le> height pTexture" and "width pTexture < 2 ^ 24"
  shows "\<exists>this' dev' lowRes.
           updateLowResTexture pTexture this dev = Some (this', dev')
         \<and> mpLowResTexture this' = Some lowRes
         \<and> width lowRes \<le> width pTexture \<and> height lowRes \<le> height pTexture"
proof -
  have h: "2 ^ 8 \<le> unat (height pTexture)" using assms(1) by (simp add: word_le_nat_alt)
  have w: "unat (width pTexture) < 2 ^ 24" using assms(2) by (simp add: word_less_nat_alt)
  obtain lw where lw: "lowResWidth pTexture = Some lw" "unat lw \<le> unat (width pTexture)"
    using lowResWidth_bound[OF w h] by auto
  obtain this' dev' where u: "updateLowResTexture pTexture this dev = Some (this', dev')"
    using updateLowResTexture_defined[OF lw(1)] by fastforce
  obtain lr where lr: "mpLowResTexture this' = Some lr" "width lr = lw"
      "height lr = lowResHeight pTexture"
    using updateLowResTexture_result[OF u] lw(1) by auto
  have "width lr \<le> width pTexture" using lw(2) lr(2) by (simp add: word_le_nat_alt)
  moreover have "height lr \<le> height pTexture" using lowResHeight_le[OF assms(1)] lr(3) by simp
  ultimately show ?thesis using u lr(1) by blast
qed

text \<open>
  C3 at a 1920 x 1080 input.
\<close>

theorem lowRes_not_larger_witness:
  "(256 :: 32 word) \<le> 1080 \<and> (1920 :: 32 word) < 2 ^ 24
   \<and> (\<exists>this' dev' lowRes.
        updateLowResTexture
          \<lparr>texId = 0, width = 1920, height = 1080, format = ResourceFormat 0,
           arraySize = 1, mipLevels = 1, bindFlags = {ShaderResource, RenderTarget}\<rparr>
          (Bloom_create (Finite 1) 5 (Finite 2)) \<lparr>texturesCreated = 1\<rparr> = Some (this', dev')
      \<and> mpLowResTexture this' = Some lowRes
      \<and> width lowRes \<le> 1920 \<and> height lowRes \<le> 1080)"
proof -
  have h: "256 \<le> height \<lparr>texId = 0, width = 1920, height = 1080, format = ResourceFormat 0,
           arraySize = 1, mipLevels = 1, bindFlags = {ShaderResource, RenderTarget}\<rparr>"
    by simp
  have w: "width \<lparr>texId = 0, width = 1920, height = 1080, format = ResourceFormat 0,
           arraySize = 1, mipLevels = 1, bindFlags = {ShaderResource, RenderTarget}\<rparr> < 2 ^ 24"
    by simp
  from lowRes_not_larger[OF h w, of "Bloom_create (Finite 1) 5 (Finite 2)" "\<lparr>texturesCreated = 1\<rparr>"]
  show ?thesis by simp
qed

text \<open>
  Claim C4. The blend state built by the constructor has, for render target 0,
  blending enabled, the RGB operation Add and both RGB factors One; it is the blend
  state of the full-screen pass that \<^verbatim>\<open>Bloom::execute\<close> submits last.
\<close>

theorem additive_blend:
  "blendEnabled (mRtDesc (getDesc (mpAdditiveBlend (Bloom_create threshold kernelSize sigma))) 0)
   \<and> rgbBlendOp (mRtDesc (getDesc (mpAdditiveBlend (Bloom_create threshold kernelSize sigma))) 0)
       = BlendOp_Add
   \<and> srcRgbFunc (mRtDesc (getDesc (mpAdditiveBlend (Bloom_create threshold kernelSize sigma))) 0)
       = BlendFunc_One
   \<and> dstRgbFunc (mRtDesc (getDesc (mpAdditiveBlend (Bloom_create threshold kernelSize sigma))) 0)
       = BlendFunc_One
   \<and> (execute filterResult ctx pFbo (Bloom_create threshold kernelSize sigma) dev
         = Some (this', dev', ctx') \<longrightarrow>
       (\<exists>pass tgt vars. last (commands ctx') = CmdFullScreenPass pass tgt vars None
          (Some (mpAdditiveBlend (Bloom_create threshold kernelSize sigma)))))"
proof -
  have "mpAdditiveBlend (Bloom_create threshold kernelSize sigma) =
        BlendState_create (setRtParams 0 BlendOp_Add BlendOp_Add BlendFunc_One BlendFunc_One
          BlendFunc_SrcAlpha BlendFunc_OneMinusSrcAlpha (setRtBlend 0 True BlendState_Desc_default))"
    by (simp add: Bloom_create_def Bloom_ctor_def Let_def)
  then have "blendEnabled (mRtDesc (getDesc (mpAdditiveBlend (Bloom_create threshold kernelSize sigma))) 0)
   \<and> rgbBlendOp (mRtDesc (getDesc (mpAdditiveBlend (Bloom_create threshold kernelSize sigma))) 0)
       = BlendOp_Add
   \<and> srcRgbFunc (mRtDesc (getDesc (mpAdditiveBlend (Bloom_create threshold kernelSize sigma))) 0)
       = BlendFunc_One
   \<and> dstRgbFunc (mRtDesc (getDesc (mpAdditiveBlend (Bloom_create threshold kernelSize sigma))) 0)
       = BlendFunc_One"
    by (simp add: setRtParams_def setRtBlend_def)
  moreover have "execute filterResult ctx pFbo (Bloom_create threshold kernelSize sigma) dev
         = Some (this', dev', ctx') \<longrightarrow>
       (\<exists>pass tgt vars. last (commands ctx') = CmdFullScreenPass pass tgt vars None
          (Some (mpAdditiveBlend (Bloom_create threshold kernelSize sigma))))"
    using execute_keeps_blend(2) by blast
  ultimately show ?thesis by blast
qed

text \<open>
  C4 at a 1920 x 1080 frame buffer.
\<close>

theorem additive_blend_witness:
  "\<exists>this' dev' ctx'.
     execute (\<lambda>flt src. src\<lparr>texId := 2\<rparr>)
       \<lparr>mpGraphicsState = \<lparr>mFboStack = [Fbo_create]\<rparr>, mGraphicsVarsStack = [], commands = []\<rparr>
       \<lparr>colorTargets = [0 \<mapsto> \<lparr>texId = 0, width = 1920, height = 1080, format = ResourceFormat 0,
          arraySize = 1, mipLevels = 1, bindFlags = {ShaderResource, RenderTarget}\<rparr>]\<rparr>
       (Bloom_create (Finite 1) 5 (Finite 2)) \<lparr>texturesCreated = 1\<rparr>
     = Some (this', dev', ctx')
   \<and> (\<exists>pass tgt vars. last (commands ctx') = CmdFullScreenPass pass tgt vars None
          (Some (mpAdditiveBlend (Bloom_create (Finite 1) 5 (Finite 2)))))"
proof -
  from execute_1920x1080_defined obtain this' dev' ctx' where
    e: "execute (\<lambda>flt src. src\<lparr>texId := 2\<rparr>)
       \<lparr>mpGraphicsState = \<lparr>mFboStack = [Fbo_create]\<rparr>, mGraphicsVarsStack = [], commands = []\<rparr>
       \<lparr>colorTargets = [0 \<mapsto> \<lparr>texId = 0, width = 1920, height = 1080, format = ResourceFormat 0,
          arraySize = 1, mipLevels = 1, bindFlags = {ShaderResource, RenderTarget}\<rparr>]\<rparr>
       (Bloom_create (Finite 1) 5 (Finite 2)) \<lparr>texturesCreated = 1\<rparr>
     = Some (this', dev', ctx')"
    by blast
  from additive_blend[of "Finite 1" 5 "Finite 2" "\<lambda>flt src. src\<lparr>texId := 2\<rparr>"
      "\<lparr>mpGraphicsState = \<lparr>mFboStack = [Fbo_create]\<rparr>, mGraphicsVarsStack = [], commands = []\<rparr>"
      "\<lparr>colorTargets = [0 \<mapsto> \<lparr>texId = 0, width = 1920, height = 1080, format = ResourceFormat 0,
          arraySize = 1, mipLevels = 1, bindFlags = {ShaderResource, RenderTarget}\<rparr>]\<rparr>"
      "\<lparr>texturesCreated = 1\<rparr>" this' dev' ctx'] e
  show ?thesis by blast
qed

text \<open>
  Claim C5. For every threshold passed to \<^verbatim>\<open>Bloom::create\<close>, the filter of the
  effect is created as a high-pass filter with exactly that threshold.
\<close>

theorem filter_is_high_pass:
  "mpFilter (Bloom_create threshold kernelSize sigma) = PassFilter_create HighPass threshold
   \<and> mFilterType (mpFilter (Bloom_create threshold kernelSize sigma)) = HighPass
   \<and> getThreshold (mpFilter (Bloom_create threshold kernelSize sigma)) = threshold"
  by (simp add: Bloom_create_def Bloom_ctor_def Let_def PassFilter_create_def getThreshold_def)

text \<open>
  Claim C6. For every kernel size and sigma passed to \<^verbatim>\<open>Bloom::create\<close>, the blur
  of the effect is created with exactly that kernel width and that sigma.
\<close>

theorem blur_parameters:
  "mpBlur (Bloom_create threshold kernelSize sigma) = GaussianBlur_create kernelSize sigma
   \<and> getKernelWidth (mpBlur (Bloom_create threshold kernelSize sigma)) = kernelSize
   \<and> getSigma (mpBlur (Bloom_create threshold kernelSize sigma)) = sigma"
  by (simp add: Bloom_create_def Bloom_ctor_def Let_def GaussianBlur_create_def
      getKernelWidth_def getSigma_def)



text \<open>
  Claim C8. After a call of \<^verbatim>\<open>Bloom::updateLowResTexture\<close> that returns, a second
  call with the same texture creates nothing and leaves the effect and the device
  unchanged.
\<close>

theorem updateLowResTexture_idempotent:
  assumes "updateLowResTexture pTexture this dev = Some (this1, dev1)"
  shows "updateLowResTexture pTexture this1 dev1 = Some (this1, dev1)"
proof -
  obtain lw lr where r: "lowResWidth pTexture = Some lw" "mpLowResTexture this1 = Some lr"
      "width lr = lw" "height lr = lowResHeight pTexture" "format lr = format pTexture"
    using updateLowResTexture_result[OF assms] by blast
  then show ?thesis by (simp add: updateLowResTexture_def)
qed

text \<open>
  C8 at a fresh effect and a 1920 x 1080 input.
\<close>

theorem updateLowResTexture_idempotent_witness:
  "updateLowResTexture
     \<lparr>texId = 0, width = 1920, height = 1080, format = ResourceFormat 0,
      arraySize = 1, mipLevels = 1, bindFlags = {ShaderResource, RenderTarget}\<rparr>
     (Bloom_create (Finite 1) 5 (Finite 2)) \<lparr>texturesCreated = 1\<rparr>
   = Some ((Bloom_create (Finite 1) 5 (Finite 2))\<lparr>mpLowResTexture := Some
       \<lparr>texId = 1, width = 480, height = 270, format = ResourceFormat 0,
        arraySize = 1, mipLevels = 1, bindFlags = {ShaderResource, RenderTarget}\<rparr>\<rparr>,
      \<lparr>texturesCreated = 2\<rparr>)
   \<and> updateLowResTexture
     \<lparr>texId = 0, width = 1920, height = 1080, format = ResourceFormat 0,
      arraySize = 1, mipLevels = 1, bindFlags = {ShaderResource, RenderTarget}\<rparr>
     ((Bloom_create (Finite 1) 5 (Finite 2))\<lparr>mpLowResTexture := Some
       \<lparr>texId = 1, width = 480, height = 270, format = ResourceFormat 0,
        arraySize = 1, mipLevels = 1, bindFlags = {ShaderResource, RenderTarget}\<rparr>\<rparr>)
     \<lparr>texturesCreated = 2\<rparr>
   = Some ((Bloom_create (Finite 1) 5 (Finite 2))\<lparr>mpLowResTexture := Some
       \<lparr>texId = 1, width = 480, height = 270, format = ResourceFormat 0,
        arraySize = 1, mipLevels = 1, bindFlags = {ShaderResource, RenderTarget}\<rparr>\<rparr>,
      \<lparr>texturesCreated = 2\<rparr>)"
  using updateLowResTexture_idempotent[OF update_1920x1080_fresh] update_1920x1080_fresh
  by simp

text \<open>
  Claim C9. After every call of \<^verbatim>\<open>Bloom::execute\<close> that returns, the stack of frame
  buffers of the graphics state and the stack of program variables of the context
  are what they were before the call.
\<close>

theorem execute_restores_stacks:
  assumes "execute filterResult ctx pFbo this dev = Some (this', dev', ctx')"
  shows "mFboStack (mpGraphicsState ctx') = mFboStack (mpGraphicsState ctx)
       \<and> mGraphicsVarsStack ctx' = mGraphicsVarsStack ctx"
proof -
  from execute_unfold[OF assms] obtain cmds where "ctx' = ctx\<lparr>commands := cmds\<rparr>"
    by blast
  then show ?thesis by simp
qed

text \<open>
  C9 at a context with one frame buffer on its stack.
\<close>

theorem execute_restores_stacks_witness:
  "\<exists>this' dev' ctx'.
     execute (\<lambda>flt src. src\<lparr>texId := 2\<rparr>)
       \<lparr>mpGraphicsState = \<lparr>mFboStack = [Fbo_create]\<rparr>, mGraphicsVarsStack = [], commands = []\<rparr>
       \<lparr>colorTargets = [0 \<mapsto> \<lparr>texId = 0, width = 1920, height = 1080, format = ResourceFormat 0,
          arraySize = 1, mipLevels = 1, bindFlags = {ShaderResource, RenderTarget}\<rparr>]\<rparr>
       (Bloom_create (Finite 1) 5 (Finite 2)) \<lparr>texturesCreated = 1\<rparr>
     = Some (this', dev', ctx')
   \<and> mFboStack (mpGraphicsState ctx') = [Fbo_create]
   \<and> mGraphicsVarsStack ctx' = []"
proof -
  from execute_1920x1080_defined obtain this' dev' ctx' where
    e: "execute (\<lambda>flt src. src\<lparr>texId := 2\<rparr>)
       \<lparr>mpGraphicsState = \<lparr>mFboStack = [Fbo_create]\<rparr>, mGraphicsVarsStack = [], commands = []\<rparr>
       \<lparr>colorTargets = [0 \<mapsto> \<lparr>texId = 0, width = 1920, height = 1080, format = ResourceFormat 0,
          arraySize = 1, mipLevels = 1, bindFlags = {ShaderResource, RenderTarget}\<rparr>]\<rparr>
       (Bloom_create (Finite 1) 5 (Finite 2)) \<lparr>texturesCreated = 1\<rparr>
     = Some (this', dev', ctx')"
    by blast
  from execute_restores_stacks[OF e] e show ?thesis by simp
qed

text \<open>
  Claim C10. After every call of \<^verbatim>\<open>Bloom::updateLowResTexture\<close> that returns, for an
  input of width \<open>w\<close>, height \<open>h\<close>: the low-resolution texture exists, its height is
  \<open>max (h div 4) 256\<close>, its width is \<open>max (w div 4) \<lfloor>v\<rfloor>\<close> where \<open>v\<close> is
  \<open>256 * (w / h)\<close> computed in \<^verbatim>\<open>float\<close>, and its format is the input's.
\<close>

theorem lowResTexture_invariant:
  assumes "updateLowResTexture pTexture this dev = Some (this', dev')"
  shows "\<exists>lowRes v. mpLowResTexture this' = Some lowRes
       \<and> height lowRes = max (height pTexture div 4) 256
       \<and> f32_mul (Finite 256) (f32_div (f32_of_u32 (width pTexture)) (f32_of_u32 (height pTexture)))
           = Finite v
       \<and> width lowRes = max (width pTexture div 4) (word_of_int \<lfloor>v\<rfloor>)
       \<and> format lowRes = format pTexture"
proof -
  obtain lw lr where r: "lowResWidth pTexture = Some lw" "mpLowResTexture this' = Some lr"
      "width lr = lw" "height lr = lowResHeight pTexture" "format lr = format pTexture"
    using updateLowResTexture_result[OF assms] by blast
  obtain v where v: "f32_mul (Finite 256)
        (f32_div (f32_of_u32 (width pTexture)) (f32_of_u32 (height pTexture))) = Finite v"
      "lw = max (width pTexture div 4) (word_of_int \<lfloor>v\<rfloor>)"
    using lowResWidth_floor[OF r(1)] by blast
  show ?thesis using r v by (simp add: lowResHeight_def)
qed

text \<open>
  C10 at a 1920 x 1080 input: 480 x 270.
\<close>

theorem lowResTexture_invariant_witness:
  "updateLowResTexture
     \<lparr>texId = 0, width = 1920, height = 1080, format = ResourceFormat 0,
      arraySize = 1, mipLevels = 1, bindFlags = {ShaderResource, RenderTarget}\<rparr>
     (Bloom_create (Finite 1) 5 (Finite 2)) \<lparr>texturesCreated = 1\<rparr>
   = Some ((Bloom_create (Finite 1) 5 (Finite 2))\<lparr>mpLowResTexture := Some
       \<lparr>texId = 1, width = 480, height = 270, format = ResourceFormat 0,
        arraySize = 1, mipLevels = 1, bindFlags = {ShaderResource, RenderTarget}\<rparr>\<rparr>,
      \<lparr>texturesCreated = 2\<rparr>)
   \<and> (\<exists>v. f32_mul (Finite 256) (f32_div (f32_of_u32 1920) (f32_of_u32 1080)) = Finite v
        \<and> (480 :: 32 word) = max (1920 div 4) (word_of_int \<lfloor>v\<rfloor>))
   \<and> (270 :: 32 word) = max (1080 div 4) 256"
  using lowResTexture_invariant[OF update_1920x1080_fresh] update_1920x1080_fresh
  by simp

end
